theory Spec2Isabelle
  imports Main "HOL-Library.Word"
begin

section \<open>Chunk allocation sequences of the metaspace (chunkAllocSequence.cpp)\<close>

text \<open>
  The file under verification defines \<^verbatim>\<open>ConstantChunkAllocSequence\<close>, a chunk allocation
  sequence encoded by a constant array whose last entry is repeated endlessly, eight
  hard-coded arrays, one static object per array, and the lookup
  \<^verbatim>\<open>ChunkAllocSequence::alloc_sequence_by_space_type\<close>.

  C++ \<^verbatim>\<open>int\<close> is a 32-bit two's complement integer: a \<open>32 word\<close> read with \<open>sint\<close> and
  compared with the signed orders \<open>\<le>s\<close> and \<open><s\<close>. Everything that stops the VM or is
  undefined behaviour in C++ is a value of the type \<open>fault\<close>.
\<close>

subsection \<open>Types declared outside the file\<close>

type_synonym cint = "32 word"

text \<open>
  Modelled from the spec: the declaration of \<^verbatim>\<open>chklvl_t\<close> and of the constants
  \<^verbatim>\<open>chklvl::CHUNK_LEVEL_*\<close> (memory/metaspace/chunkLevel.hpp) is not among the sources.
  The specification describes a chunk level as an opaque, totally ordered value from a
  small fixed set of size classes, the smallest being 1K and the sizes doubling up to
  several megabytes. The constructors are the size classes from 1K to 4M; the arrays of this
  file name seven of them.
\<close>

datatype chklvl_t =
    CHUNK_LEVEL_1K | CHUNK_LEVEL_2K | CHUNK_LEVEL_4K | CHUNK_LEVEL_8K
  | CHUNK_LEVEL_16K | CHUNK_LEVEL_32K | CHUNK_LEVEL_64K | CHUNK_LEVEL_128K
  | CHUNK_LEVEL_256K | CHUNK_LEVEL_512K | CHUNK_LEVEL_1M | CHUNK_LEVEL_2M
  | CHUNK_LEVEL_4M

text \<open>
  Modelled from the spec: the size in kilobytes that the name of a level stands for, which
  gives the total order of the levels (the sizes double from 1K upwards).
\<close>

fun kilobytes :: "chklvl_t \<Rightarrow> nat" where
  "kilobytes CHUNK_LEVEL_1K = 1"
| "kilobytes CHUNK_LEVEL_2K = 2"
| "kilobytes CHUNK_LEVEL_4K = 4"
| "kilobytes CHUNK_LEVEL_8K = 8"
| "kilobytes CHUNK_LEVEL_16K = 16"
| "kilobytes CHUNK_LEVEL_32K = 32"
| "kilobytes CHUNK_LEVEL_64K = 64"
| "kilobytes CHUNK_LEVEL_128K = 128"
| "kilobytes CHUNK_LEVEL_256K = 256"
| "kilobytes CHUNK_LEVEL_512K = 512"
| "kilobytes CHUNK_LEVEL_1M = 1024"
| "kilobytes CHUNK_LEVEL_2M = 2048"
| "kilobytes CHUNK_LEVEL_4M = 4096"

text \<open>
  Modelled from the spec: the declaration of the enumeration \<^verbatim>\<open>MetaspaceType\<close> is not among
  the sources. Its four enumerators are the ones the two \<^verbatim>\<open>switch\<close> statements name; a C++
  enumeration can hold other values of its underlying integer type, which is what the
  \<^verbatim>\<open>default\<close> labels are for, so one more constructor stands for any such value.
\<close>

datatype MetaspaceType =
    StandardMetaspaceType
  | BootMetaspaceType
  | ClassMirrorHolderMetaspaceType
  | ReflectionMetaspaceType
  | UnrecognizedMetaspaceType int

subsection \<open>Faults\<close>

text \<open>
  \<open>AssertFailed\<close>: an \<^verbatim>\<open>assert\<close> of the source does not hold (the model is the build in which
  assertions are compiled in). \<open>ShouldNotReachHere\<close>: the macro of that name was executed;
  it reports a fatal error, so that the statement after the \<^verbatim>\<open>switch\<close>,
  \<^verbatim>\<open>return NULL\<close>, is never executed. \<open>OutOfBoundsRead\<close>: an array was read outside its
  elements. \<open>NullDereference\<close>: a call through a null pointer.
\<close>

datatype fault = AssertFailed | ShouldNotReachHere | OutOfBoundsRead | NullDereference

subsection \<open>ConstantChunkAllocSequence\<close>

text \<open>
  The two fields of the class. \<^verbatim>\<open>_entries\<close> is a pointer to a constant array; the model
  holds the array it points to, and a read outside that array is a fault.
\<close>

record ConstantChunkAllocSequence =
  entries :: "chklvl_t list"
  num_entries :: cint

text \<open>Reading \<^verbatim>\<open>a[i]\<close> with an \<^verbatim>\<open>int\<close> index.\<close>

definition array_read :: "chklvl_t list \<Rightarrow> cint \<Rightarrow> fault + chklvl_t" where
  "array_read a i =
     (if 0 \<le> sint i \<and> sint i < int (length a) then Inr (a ! nat (sint i))
      else Inl OutOfBoundsRead)"

text \<open>
  The constructor:
  \<^verbatim>\<open>ConstantChunkAllocSequence(const chklvl_t* array, int num_entries)
    : _entries(array), _num_entries(num_entries)
  { assert(_num_entries > 0, "must not be empty."); }\<close>
\<close>

definition new_ConstantChunkAllocSequence ::
    "chklvl_t list \<Rightarrow> cint \<Rightarrow> fault + ConstantChunkAllocSequence" where
  "new_ConstantChunkAllocSequence array n =
     (if 0 <s n then Inr \<lparr>entries = array, num_entries = n\<rparr> else Inl AssertFailed)"

text \<open>
  \<^verbatim>\<open>chklvl_t get_next_chunk_level(int num_allocated) const {
    if (num_allocated >= _num_entries) {
      // Caller shall repeat last allocation
      return _entries[_num_entries - 1];
    }
    return _entries[num_allocated];
  }\<close>
\<close>

definition get_next_chunk_level :: "ConstantChunkAllocSequence \<Rightarrow> cint \<Rightarrow> fault + chklvl_t" where
  "get_next_chunk_level s num_allocated =
     (if num_entries s \<le>s num_allocated then array_read (entries s) (num_entries s - 1)
      else array_read (entries s) num_allocated)"

subsection \<open>The hard-coded sequences\<close>

definition g_sequ_standard_non_class :: "chklvl_t list" where
  "g_sequ_standard_non_class =
     [CHUNK_LEVEL_4K, CHUNK_LEVEL_4K, CHUNK_LEVEL_4K, CHUNK_LEVEL_4K, CHUNK_LEVEL_16K]"

definition g_sequ_standard_class :: "chklvl_t list" where
  "g_sequ_standard_class =
     [CHUNK_LEVEL_2K, CHUNK_LEVEL_2K, CHUNK_LEVEL_2K, CHUNK_LEVEL_2K, CHUNK_LEVEL_16K]"

definition g_sequ_anon_non_class :: "chklvl_t list" where
  "g_sequ_anon_non_class = [CHUNK_LEVEL_1K]"

definition g_sequ_anon_class :: "chklvl_t list" where
  "g_sequ_anon_class = [CHUNK_LEVEL_1K]"

definition g_sequ_refl_non_class :: "chklvl_t list" where
  "g_sequ_refl_non_class = [CHUNK_LEVEL_2K, CHUNK_LEVEL_1K]"

definition g_sequ_refl_class :: "chklvl_t list" where
  "g_sequ_refl_class = [CHUNK_LEVEL_1K]"

definition g_sequ_boot_non_class :: "chklvl_t list" where
  "g_sequ_boot_non_class = [CHUNK_LEVEL_4M, CHUNK_LEVEL_1M]"

definition g_sequ_boot_class :: "chklvl_t list" where
  "g_sequ_boot_class = [CHUNK_LEVEL_1M, CHUNK_LEVEL_256K]"

text \<open>
  \<^verbatim>\<open>#define DEFINE_CLASS_FOR_ARRAY(what) \
  static ConstantChunkAllocSequence g_chunk_alloc_sequence_##what
    (g_sequ_##what, sizeof(g_sequ_##what)/sizeof(chklvl_t));\<close>

  The quotient of the two sizes is the number of elements of the array, converted to
  \<^verbatim>\<open>int\<close>.
\<close>

definition DEFINE_CLASS_FOR_ARRAY :: "chklvl_t list \<Rightarrow> fault + ConstantChunkAllocSequence" where
  "DEFINE_CLASS_FOR_ARRAY g_sequ = new_ConstantChunkAllocSequence g_sequ (of_nat (length g_sequ))"

definition g_chunk_alloc_sequence_standard_non_class :: "fault + ConstantChunkAllocSequence" where
  "g_chunk_alloc_sequence_standard_non_class = DEFINE_CLASS_FOR_ARRAY g_sequ_standard_non_class"

definition g_chunk_alloc_sequence_standard_class :: "fault + ConstantChunkAllocSequence" where
  "g_chunk_alloc_sequence_standard_class = DEFINE_CLASS_FOR_ARRAY g_sequ_standard_class"

definition g_chunk_alloc_sequence_anon_non_class :: "fault + ConstantChunkAllocSequence" where
  "g_chunk_alloc_sequence_anon_non_class = DEFINE_CLASS_FOR_ARRAY g_sequ_anon_non_class"

definition g_chunk_alloc_sequence_anon_class :: "fault + ConstantChunkAllocSequence" where
  "g_chunk_alloc_sequence_anon_class = DEFINE_CLASS_FOR_ARRAY g_sequ_anon_class"

definition g_chunk_alloc_sequence_refl_non_class :: "fault + ConstantChunkAllocSequence" where
  "g_chunk_alloc_sequence_refl_non_class = DEFINE_CLASS_FOR_ARRAY g_sequ_refl_non_class"

definition g_chunk_alloc_sequence_refl_class :: "fault + ConstantChunkAllocSequence" where
  "g_chunk_alloc_sequence_refl_class = DEFINE_CLASS_FOR_ARRAY g_sequ_refl_class"

definition g_chunk_alloc_sequence_boot_non_class :: "fault + ConstantChunkAllocSequence" where
  "g_chunk_alloc_sequence_boot_non_class = DEFINE_CLASS_FOR_ARRAY g_sequ_boot_non_class"

definition g_chunk_alloc_sequence_boot_class :: "fault + ConstantChunkAllocSequence" where
  "g_chunk_alloc_sequence_boot_class = DEFINE_CLASS_FOR_ARRAY g_sequ_boot_class"

subsection \<open>Pointers to the static objects\<close>

text \<open>
  The lookup returns the address of one of the eight static objects. An address is the
  name of the object; two pointers are equal exactly when they name the same object, also
  when two objects have equal contents. \<open>object_at\<close> is the store: what is found at an
  address once static initialisation has run (a fault when the constructor's assertion
  failed there).
\<close>

datatype static_object =
    standard_non_class | standard_class | anon_non_class | anon_class
  | refl_non_class | refl_class | boot_non_class | boot_class

datatype pointer = NULL | AddressOf static_object

fun object_at :: "static_object \<Rightarrow> fault + ConstantChunkAllocSequence" where
  "object_at standard_non_class = g_chunk_alloc_sequence_standard_non_class"
| "object_at standard_class = g_chunk_alloc_sequence_standard_class"
| "object_at anon_non_class = g_chunk_alloc_sequence_anon_non_class"
| "object_at anon_class = g_chunk_alloc_sequence_anon_class"
| "object_at refl_non_class = g_chunk_alloc_sequence_refl_non_class"
| "object_at refl_class = g_chunk_alloc_sequence_refl_class"
| "object_at boot_non_class = g_chunk_alloc_sequence_boot_non_class"
| "object_at boot_class = g_chunk_alloc_sequence_boot_class"

text \<open>The call \<^verbatim>\<open>p->get_next_chunk_level(num_allocated)\<close> through a pointer.\<close>

fun call_get_next_chunk_level :: "pointer \<Rightarrow> cint \<Rightarrow> fault + chklvl_t" where
  "call_get_next_chunk_level NULL num_allocated = Inl NullDereference"
| "call_get_next_chunk_level (AddressOf g) num_allocated =
     (case object_at g of
        Inl f \<Rightarrow> Inl f
      | Inr s \<Rightarrow> get_next_chunk_level s num_allocated)"

subsection \<open>The lookup\<close>

text \<open>
  \<^verbatim>\<open>if (is_class) {
    switch(space_type) {
    case StandardMetaspaceType:          return &g_chunk_alloc_sequence_standard_class;
    case ReflectionMetaspaceType:        return &g_chunk_alloc_sequence_refl_class;
    case ClassMirrorHolderMetaspaceType: return &g_chunk_alloc_sequence_anon_class;
    case BootMetaspaceType:              return &g_chunk_alloc_sequence_boot_non_class;
    default: ShouldNotReachHere();
    }
  } else {
    switch(space_type) {
    case StandardMetaspaceType:          return &g_chunk_alloc_sequence_standard_non_class;
    case ReflectionMetaspaceType:        return &g_chunk_alloc_sequence_refl_non_class;
    case ClassMirrorHolderMetaspaceType: return &g_chunk_alloc_sequence_anon_non_class;
    case BootMetaspaceType:              return &g_chunk_alloc_sequence_boot_non_class;
    default: ShouldNotReachHere();
    }
  }
  return NULL;\<close>
\<close>

definition alloc_sequence_by_space_type :: "MetaspaceType \<Rightarrow> bool \<Rightarrow> fault + pointer" where
  "alloc_sequence_by_space_type space_type is_class =
     (if is_class then
        (case space_type of
           StandardMetaspaceType \<Rightarrow> Inr (AddressOf standard_class)
         | ReflectionMetaspaceType \<Rightarrow> Inr (AddressOf refl_class)
         | ClassMirrorHolderMetaspaceType \<Rightarrow> Inr (AddressOf anon_class)
         | BootMetaspaceType \<Rightarrow> Inr (AddressOf boot_non_class)
         | UnrecognizedMetaspaceType v \<Rightarrow> Inl ShouldNotReachHere)
      else
        (case space_type of
           StandardMetaspaceType \<Rightarrow> Inr (AddressOf standard_non_class)
         | ReflectionMetaspaceType \<Rightarrow> Inr (AddressOf refl_non_class)
         | ClassMirrorHolderMetaspaceType \<Rightarrow> Inr (AddressOf anon_non_class)
         | BootMetaspaceType \<Rightarrow> Inr (AddressOf boot_non_class)
         | UnrecognizedMetaspaceType v \<Rightarrow> Inl ShouldNotReachHere))"

text \<open>
  What a caller does with the lookup: it asks for the sequence of its space type and then
  for the level of the chunk to allocate after \<open>num_allocated\<close> chunks.
\<close>

definition next_chunk_level_for :: "MetaspaceType \<Rightarrow> bool \<Rightarrow> cint \<Rightarrow> fault + chklvl_t" where
  "next_chunk_level_for space_type is_class num_allocated =
     (case alloc_sequence_by_space_type space_type is_class of
        Inl f \<Rightarrow> Inl f
      | Inr p \<Rightarrow> call_get_next_chunk_level p num_allocated)"

section \<open>Properties\<close>

subsection \<open>Signed 32-bit arithmetic\<close>

lemma sint_pred:
  fixes n :: cint
  assumes "0 < sint n"
  shows "sint (n - 1) = sint n - 1"
proof -
  have "sint n < 2 ^ 31" using sint_lt [of n] by simp
  with assms have "signed_take_bit 31 (sint n - 1) = sint n - 1"
    by (intro signed_take_bit_int_eq_self) simp_all
  then show ?thesis by (simp add: sint_word_diff)
qed

lemma sint_of_nat_length:
  assumes "n < 2 ^ 31"
  shows "sint (of_nat n :: cint) = int n"
proof -
  have "signed_take_bit 31 (int n) = int n"
    using assms by (intro signed_take_bit_int_eq_self) simp_all
  moreover have "sint (word_of_int (int n) :: cint) = signed_take_bit 31 (int n)"
    using sint_sbintrunc' [of "int n", where ?'a = 32] by simp
  ultimately show ?thesis by simp
qed

lemma nat_below_4: "k < 4 \<Longrightarrow> k = 0 \<or> k = 1 \<or> k = 2 \<or> k = (3::nat)"
  by arith

subsection \<open>The level read by \<open>get_next_chunk_level\<close>\<close>

text \<open>
  When the object holds a positive \<^verbatim>\<open>_num_entries\<close> and its array has at least that many
  elements, the level for a non-negative \<open>num_allocated\<close> is the element at the smaller of
  \<open>num_allocated\<close> and \<^verbatim>\<open>_num_entries - 1\<close>.
\<close>

lemma get_next_chunk_level_clamped:
  assumes "0 < sint (num_entries s)" and "sint (num_entries s) \<le> int (length (entries s))"
    and "0 \<le> sint i"
  shows "get_next_chunk_level s i =
         Inr (entries s ! min (nat (sint i)) (nat (sint (num_entries s)) - 1))"
proof (cases "num_entries s \<le>s i")
  case True
  then have le: "sint (num_entries s) \<le> sint i" by (simp add: word_sle_eq)
  have "min (nat (sint i)) (nat (sint (num_entries s)) - 1) = nat (sint (num_entries s) - 1)"
    using le assms by (simp add: min_def nat_diff_distrib)
  with True assms show ?thesis
    by (simp add: get_next_chunk_level_def array_read_def sint_pred)
next
  case False
  then have lt: "sint i < sint (num_entries s)" by (simp add: word_sle_eq)
  then have "min (nat (sint i)) (nat (sint (num_entries s)) - 1) = nat (sint i)"
    using assms by (simp add: min_def)
  with False lt assms show ?thesis
    by (simp add: get_next_chunk_level_def array_read_def)
qed

subsection \<open>Static initialisation and the store\<close>

text \<open>
  The macro builds an object for every non-empty array whose length fits an \<^verbatim>\<open>int\<close>, and
  the eight static objects are built without a fault.
\<close>

lemma DEFINE_CLASS_FOR_ARRAY_Inr:
  assumes "tbl \<noteq> []" and "length tbl < 2 ^ 31"
  shows "DEFINE_CLASS_FOR_ARRAY tbl = Inr \<lparr>entries = tbl, num_entries = of_nat (length tbl)\<rparr>"
  using assms
  by (simp add: DEFINE_CLASS_FOR_ARRAY_def new_ConstantChunkAllocSequence_def
      word_sless_alt sint_of_nat_length)

lemma object_at_eval:
  "object_at standard_non_class = Inr \<lparr>entries = g_sequ_standard_non_class, num_entries = 5\<rparr>"
  "object_at standard_class = Inr \<lparr>entries = g_sequ_standard_class, num_entries = 5\<rparr>"
  "object_at anon_non_class = Inr \<lparr>entries = g_sequ_anon_non_class, num_entries = 1\<rparr>"
  "object_at anon_class = Inr \<lparr>entries = g_sequ_anon_class, num_entries = 1\<rparr>"
  "object_at refl_non_class = Inr \<lparr>entries = g_sequ_refl_non_class, num_entries = 2\<rparr>"
  "object_at refl_class = Inr \<lparr>entries = g_sequ_refl_class, num_entries = 1\<rparr>"
  "object_at boot_non_class = Inr \<lparr>entries = g_sequ_boot_non_class, num_entries = 2\<rparr>"
  "object_at boot_class = Inr \<lparr>entries = g_sequ_boot_class, num_entries = 2\<rparr>"
  by (simp_all add: g_chunk_alloc_sequence_standard_non_class_def
      g_chunk_alloc_sequence_standard_class_def g_chunk_alloc_sequence_anon_non_class_def
      g_chunk_alloc_sequence_anon_class_def g_chunk_alloc_sequence_refl_non_class_def
      g_chunk_alloc_sequence_refl_class_def g_chunk_alloc_sequence_boot_non_class_def
      g_chunk_alloc_sequence_boot_class_def DEFINE_CLASS_FOR_ARRAY_def
      new_ConstantChunkAllocSequence_def g_sequ_standard_non_class_def
      g_sequ_standard_class_def g_sequ_anon_non_class_def g_sequ_anon_class_def
      g_sequ_refl_non_class_def g_sequ_refl_class_def g_sequ_boot_non_class_def
      g_sequ_boot_class_def word_sless_alt)

lemma call_get_next_chunk_level_nth:
  assumes "object_at g = Inr \<lparr>entries = tbl, num_entries = n\<rparr>"
    and "0 < sint n" and "sint n \<le> int (length tbl)" and "0 \<le> sint i"
  shows "call_get_next_chunk_level (AddressOf g) i =
         Inr (tbl ! min (nat (sint i)) (nat (sint n) - 1))"
  using assms get_next_chunk_level_clamped [of "\<lparr>entries = tbl, num_entries = n\<rparr>" i]
  by simp

text \<open>
  From here on a call through a pointer is rewritten by the lemmas of this section, not by
  unfolding the store.
\<close>

declare object_at.simps [simp del] call_get_next_chunk_level.simps [simp del]

lemma object_at_nonempty:
  "\<exists>s. object_at g = Inr s \<and> 1 \<le> sint (num_entries s) \<and>
       sint (num_entries s) = int (length (entries s))"
  by (cases g)
    (simp_all add: object_at_eval g_sequ_standard_non_class_def g_sequ_standard_class_def
      g_sequ_anon_non_class_def g_sequ_anon_class_def g_sequ_refl_non_class_def
      g_sequ_refl_class_def g_sequ_boot_non_class_def g_sequ_boot_class_def)

subsection \<open>Levels of the static objects\<close>

lemma level_standard_non_class:
  assumes "0 \<le> sint i"
  shows "call_get_next_chunk_level (AddressOf standard_non_class) i =
         Inr (g_sequ_standard_non_class ! min (nat (sint i)) 4)"
  using call_get_next_chunk_level_nth [OF object_at_eval(1) _ _ assms]
  by (simp add: g_sequ_standard_non_class_def)

lemma level_anon:
  assumes "0 \<le> sint i"
  shows "call_get_next_chunk_level (AddressOf anon_non_class) i = Inr CHUNK_LEVEL_1K"
    and "call_get_next_chunk_level (AddressOf anon_class) i = Inr CHUNK_LEVEL_1K"
  using call_get_next_chunk_level_nth [OF object_at_eval(3) _ _ assms]
    call_get_next_chunk_level_nth [OF object_at_eval(4) _ _ assms]
  by (simp_all add: g_sequ_anon_non_class_def g_sequ_anon_class_def)

lemma level_refl_class:
  assumes "0 \<le> sint i"
  shows "call_get_next_chunk_level (AddressOf refl_class) i = Inr CHUNK_LEVEL_1K"
  using call_get_next_chunk_level_nth [OF object_at_eval(6) _ _ assms]
  by (simp add: g_sequ_refl_class_def)

lemma level_refl_non_class:
  assumes "0 \<le> sint i"
  shows "call_get_next_chunk_level (AddressOf refl_non_class) i =
         Inr (g_sequ_refl_non_class ! min (nat (sint i)) 1)"
  using call_get_next_chunk_level_nth [OF object_at_eval(5) _ _ assms]
  by (simp add: g_sequ_refl_non_class_def)

lemma level_boot_non_class:
  assumes "0 \<le> sint i"
  shows "call_get_next_chunk_level (AddressOf boot_non_class) i =
         Inr (g_sequ_boot_non_class ! min (nat (sint i)) 1)"
  using call_get_next_chunk_level_nth [OF object_at_eval(7) _ _ assms]
  by (simp add: g_sequ_boot_non_class_def)

lemma level_zero:
  "call_get_next_chunk_level (AddressOf standard_non_class) 0 = Inr CHUNK_LEVEL_4K"
  "call_get_next_chunk_level (AddressOf standard_class) 0 = Inr CHUNK_LEVEL_2K"
  "call_get_next_chunk_level (AddressOf anon_non_class) 0 = Inr CHUNK_LEVEL_1K"
  "call_get_next_chunk_level (AddressOf anon_class) 0 = Inr CHUNK_LEVEL_1K"
  "call_get_next_chunk_level (AddressOf refl_non_class) 0 = Inr CHUNK_LEVEL_2K"
  "call_get_next_chunk_level (AddressOf refl_class) 0 = Inr CHUNK_LEVEL_1K"
  "call_get_next_chunk_level (AddressOf boot_non_class) 0 = Inr CHUNK_LEVEL_4M"
  "call_get_next_chunk_level (AddressOf boot_class) 0 = Inr CHUNK_LEVEL_1M"
  by (simp_all add: object_at_eval get_next_chunk_level_def array_read_def
      g_sequ_standard_non_class_def g_sequ_standard_class_def g_sequ_anon_non_class_def
      g_sequ_anon_class_def g_sequ_refl_non_class_def g_sequ_refl_class_def
      g_sequ_boot_non_class_def g_sequ_boot_class_def word_sle_eq
      call_get_next_chunk_level.simps)

subsection \<open>The lookup, case by case\<close>

lemma alloc_sequence_by_space_type_eval:
  "alloc_sequence_by_space_type StandardMetaspaceType True = Inr (AddressOf standard_class)"
  "alloc_sequence_by_space_type ReflectionMetaspaceType True = Inr (AddressOf refl_class)"
  "alloc_sequence_by_space_type ClassMirrorHolderMetaspaceType True = Inr (AddressOf anon_class)"
  "alloc_sequence_by_space_type BootMetaspaceType True = Inr (AddressOf boot_non_class)"
  "alloc_sequence_by_space_type StandardMetaspaceType False = Inr (AddressOf standard_non_class)"
  "alloc_sequence_by_space_type ReflectionMetaspaceType False = Inr (AddressOf refl_non_class)"
  "alloc_sequence_by_space_type ClassMirrorHolderMetaspaceType False =
     Inr (AddressOf anon_non_class)"
  "alloc_sequence_by_space_type BootMetaspaceType False = Inr (AddressOf boot_non_class)"
  "alloc_sequence_by_space_type (UnrecognizedMetaspaceType v) is_class = Inl ShouldNotReachHere"
  by (simp_all add: alloc_sequence_by_space_type_def)

lemma alloc_sequence_by_space_type_AddressOf:
  assumes "alloc_sequence_by_space_type t c = Inr p"
  shows "\<exists>g. p = AddressOf g"
  using assms
  by (cases t; cases c) (auto simp: alloc_sequence_by_space_type_def)

lemma next_chunk_level_for_call:
  "alloc_sequence_by_space_type t c = Inr p \<Longrightarrow>
   next_chunk_level_for t c i = call_get_next_chunk_level p i"
  by (simp add: next_chunk_level_for_def)

section \<open>The claims\<close>

subsection \<open>Tail clamp\<close>

text \<open>
  Claim C1. For every table, that is an object whose array is not empty and whose
  \<^verbatim>\<open>_num_entries\<close> is the length of the array, and every index \<open>i\<close> with
  \<open>i \<ge> length - 1\<close>, \<open>get_next_chunk_level i\<close> returns the same value as
  \<open>get_next_chunk_level (length - 1)\<close>, and that value is the last element of the array:
  past the explicit list the last element is repeated.
\<close>

theorem get_next_chunk_level_tail_clamp:
  assumes "entries s \<noteq> []"
    and "sint (num_entries s) = int (length (entries s))"
    and "sint (num_entries s) - 1 \<le> sint i"
  shows "get_next_chunk_level s i = get_next_chunk_level s (num_entries s - 1) \<and>
         get_next_chunk_level s i = Inr (last (entries s))"
proof -
  from assms(1,2) have pos: "0 < sint (num_entries s)" by simp
  then have pred: "sint (num_entries s - 1) = sint (num_entries s) - 1"
    by (rule sint_pred)
  have len: "nat (int (length (entries s)) - 1) = length (entries s) - 1"
    by arith
  have at_last: "get_next_chunk_level s (num_entries s - 1) = Inr (last (entries s))"
    using get_next_chunk_level_clamped [of s "num_entries s - 1"] pos pred assms(1,2)
    by (simp add: last_conv_nth len)
  have nonneg: "0 \<le> sint i" using pos assms(3) by simp
  have "min (nat (sint i)) (length (entries s) - 1) = length (entries s) - 1"
    using assms(2,3) nonneg by linarith
  then have "get_next_chunk_level s i = Inr (last (entries s))"
    using get_next_chunk_level_clamped [of s i] pos nonneg assms(1,2)
    by (simp add: last_conv_nth len)
  with at_last show ?thesis by simp
qed

theorem get_next_chunk_level_tail_clamp_witness:
  "entries \<lparr>entries = [CHUNK_LEVEL_4M, CHUNK_LEVEL_1M], num_entries = 2\<rparr> \<noteq> [] \<and>
   sint (num_entries \<lparr>entries = [CHUNK_LEVEL_4M, CHUNK_LEVEL_1M], num_entries = 2\<rparr>) =
     int (length (entries \<lparr>entries = [CHUNK_LEVEL_4M, CHUNK_LEVEL_1M], num_entries = 2\<rparr>)) \<and>
   sint (num_entries \<lparr>entries = [CHUNK_LEVEL_4M, CHUNK_LEVEL_1M], num_entries = 2\<rparr>) - 1
     \<le> sint (7 :: cint) \<and>
   get_next_chunk_level \<lparr>entries = [CHUNK_LEVEL_4M, CHUNK_LEVEL_1M], num_entries = 2\<rparr> 7 =
     get_next_chunk_level \<lparr>entries = [CHUNK_LEVEL_4M, CHUNK_LEVEL_1M], num_entries = 2\<rparr> 1 \<and>
   get_next_chunk_level \<lparr>entries = [CHUNK_LEVEL_4M, CHUNK_LEVEL_1M], num_entries = 2\<rparr> 7 =
     Inr CHUNK_LEVEL_1M"
  using get_next_chunk_level_tail_clamp
    [of "\<lparr>entries = [CHUNK_LEVEL_4M, CHUNK_LEVEL_1M], num_entries = 2\<rparr>" 7]
  by (simp add: get_next_chunk_level_def array_read_def)

subsection \<open>First levels\<close>

text \<open>
  Claim C2. The specification expects, for every recognised pair of space type and class
  flag, a non-null sequence whose level at index 0 is the first level documented for the
  pair, and for the boot space type with class data the first level of the boot class
  array, 1M. The lookup evaluated at index 0: seven pairs give the documented level; for
  the boot space type with \<open>is_class = True\<close> it returns the address of the non-class
  object, whose first level is 4M, while the object built from \<open>g_sequ_boot_class\<close>, whose
  first level is 1M, is returned by no case of the lookup.
\<close>

theorem first_levels_of_lookup:
  "next_chunk_level_for StandardMetaspaceType False 0 = Inr CHUNK_LEVEL_4K \<and>
   next_chunk_level_for StandardMetaspaceType True 0 = Inr CHUNK_LEVEL_2K \<and>
   next_chunk_level_for ReflectionMetaspaceType False 0 = Inr CHUNK_LEVEL_2K \<and>
   next_chunk_level_for ReflectionMetaspaceType True 0 = Inr CHUNK_LEVEL_1K \<and>
   next_chunk_level_for ClassMirrorHolderMetaspaceType False 0 = Inr CHUNK_LEVEL_1K \<and>
   next_chunk_level_for ClassMirrorHolderMetaspaceType True 0 = Inr CHUNK_LEVEL_1K \<and>
   next_chunk_level_for BootMetaspaceType False 0 = Inr CHUNK_LEVEL_4M \<and>
   alloc_sequence_by_space_type BootMetaspaceType True = Inr (AddressOf boot_non_class) \<and>
   next_chunk_level_for BootMetaspaceType True 0 = Inr CHUNK_LEVEL_4M \<and>
   call_get_next_chunk_level (AddressOf boot_class) 0 = Inr CHUNK_LEVEL_1M \<and>
   next_chunk_level_for BootMetaspaceType True 0 \<noteq> Inr CHUNK_LEVEL_1M"
  by (simp add: next_chunk_level_for_call [OF alloc_sequence_by_space_type_eval(1)]
      next_chunk_level_for_call [OF alloc_sequence_by_space_type_eval(2)]
      next_chunk_level_for_call [OF alloc_sequence_by_space_type_eval(3)]
      next_chunk_level_for_call [OF alloc_sequence_by_space_type_eval(4)]
      next_chunk_level_for_call [OF alloc_sequence_by_space_type_eval(5)]
      next_chunk_level_for_call [OF alloc_sequence_by_space_type_eval(6)]
      next_chunk_level_for_call [OF alloc_sequence_by_space_type_eval(7)]
      next_chunk_level_for_call [OF alloc_sequence_by_space_type_eval(8)]
      alloc_sequence_by_space_type_eval(4) level_zero)

subsection \<open>The boot space type and the class flag\<close>

text \<open>
  Claim C3. For the boot space type the lookup returns the same pointer, the address of
  the non-class object, for both values of the class flag, while for each of the three
  other recognised space types the two values of the flag give different pointers.
\<close>

theorem boot_lookup_ignores_class_flag:
  "alloc_sequence_by_space_type BootMetaspaceType True =
     alloc_sequence_by_space_type BootMetaspaceType False \<and>
   alloc_sequence_by_space_type BootMetaspaceType True = Inr (AddressOf boot_non_class) \<and>
   alloc_sequence_by_space_type StandardMetaspaceType True \<noteq>
     alloc_sequence_by_space_type StandardMetaspaceType False \<and>
   alloc_sequence_by_space_type ReflectionMetaspaceType True \<noteq>
     alloc_sequence_by_space_type ReflectionMetaspaceType False \<and>
   alloc_sequence_by_space_type ClassMirrorHolderMetaspaceType True \<noteq>
     alloc_sequence_by_space_type ClassMirrorHolderMetaspaceType False"
  by (simp add: alloc_sequence_by_space_type_eval)

subsection \<open>The standard sequence for non-class data\<close>

text \<open>
  Claim C4. For the standard space type and non-class data, \<open>get_next_chunk_level i\<close> is
  the 4K level for every \<open>i\<close> from 0 to 3 and the 16K level for every \<open>i \<ge> 4\<close>; 4K is the
  smallest level of that array and 16K is larger.
\<close>

theorem standard_non_class_ramp:
  "(0 \<le> sint i \<and> sint i \<le> 3 \<longrightarrow>
      next_chunk_level_for StandardMetaspaceType False i = Inr CHUNK_LEVEL_4K) \<and>
   (4 \<le> sint i \<longrightarrow>
      next_chunk_level_for StandardMetaspaceType False i = Inr CHUNK_LEVEL_16K) \<and>
   kilobytes CHUNK_LEVEL_4K = Min (kilobytes ` set g_sequ_standard_non_class) \<and>
   kilobytes CHUNK_LEVEL_4K < kilobytes CHUNK_LEVEL_16K"
proof (intro conjI impI)
  assume a: "0 \<le> sint i \<and> sint i \<le> 3"
  then have "nat (sint i) < 4" by linarith
  then have k: "nat (sint i) = 0 \<or> nat (sint i) = 1 \<or> nat (sint i) = 2 \<or> nat (sint i) = 3"
    by (rule nat_below_4)
  have "next_chunk_level_for StandardMetaspaceType False i =
        Inr (g_sequ_standard_non_class ! min (nat (sint i)) 4)"
    using a level_standard_non_class [of i]
    by (simp add: next_chunk_level_for_def alloc_sequence_by_space_type_def)
  with k show "next_chunk_level_for StandardMetaspaceType False i = Inr CHUNK_LEVEL_4K"
    by (auto simp: g_sequ_standard_non_class_def)
next
  assume a: "4 \<le> sint i"
  then have "min (nat (sint i)) 4 = 4" by simp
  moreover have "next_chunk_level_for StandardMetaspaceType False i =
        Inr (g_sequ_standard_non_class ! min (nat (sint i)) 4)"
    using a level_standard_non_class [of i]
    by (simp add: next_chunk_level_for_def alloc_sequence_by_space_type_def)
  ultimately show "next_chunk_level_for StandardMetaspaceType False i = Inr CHUNK_LEVEL_16K"
    by (simp add: g_sequ_standard_non_class_def)
next
  show "kilobytes CHUNK_LEVEL_4K = Min (kilobytes ` set g_sequ_standard_non_class)"
    by (simp add: g_sequ_standard_non_class_def)
next
  show "kilobytes CHUNK_LEVEL_4K < kilobytes CHUNK_LEVEL_16K" by simp
qed

theorem standard_non_class_ramp_witness:
  "(0::int) \<le> sint (2::cint) \<and> sint (2::cint) \<le> 3 \<and> 4 \<le> sint (9::cint) \<and>
   next_chunk_level_for StandardMetaspaceType False 2 = Inr CHUNK_LEVEL_4K \<and>
   next_chunk_level_for StandardMetaspaceType False 9 = Inr CHUNK_LEVEL_16K"
  using standard_non_class_ramp [of 2] standard_non_class_ramp [of 9]
  by simp

subsection \<open>The boot sequence\<close>

text \<open>
  Claim C5. For the boot space type, with either class flag, \<open>get_next_chunk_level 0\<close> on
  the sequence the lookup returns is 4M, the largest level of that sequence, and for every
  \<open>i \<ge> 1\<close> it is 1M, the largest of the remaining levels.
\<close>

theorem boot_sequence_levels:
  "next_chunk_level_for BootMetaspaceType is_class 0 = Inr CHUNK_LEVEL_4M \<and>
   (1 \<le> sint i \<longrightarrow> next_chunk_level_for BootMetaspaceType is_class i = Inr CHUNK_LEVEL_1M) \<and>
   kilobytes CHUNK_LEVEL_4M = Max (kilobytes ` set g_sequ_boot_non_class) \<and>
   kilobytes CHUNK_LEVEL_1M =
     Max (kilobytes ` (set g_sequ_boot_non_class - {CHUNK_LEVEL_4M}))"
proof -
  have call: "next_chunk_level_for BootMetaspaceType is_class j =
      call_get_next_chunk_level (AddressOf boot_non_class) j" for j
    by (cases is_class)
      (simp_all add: next_chunk_level_for_call alloc_sequence_by_space_type_eval)
  have first: "next_chunk_level_for BootMetaspaceType is_class 0 = Inr CHUNK_LEVEL_4M"
    by (simp add: call level_zero)
  have plateau: "next_chunk_level_for BootMetaspaceType is_class i = Inr CHUNK_LEVEL_1M"
    if "1 \<le> sint i"
  proof -
    from that have "min (nat (sint i)) 1 = 1" by simp
    with that level_boot_non_class [of i] show ?thesis
      by (simp add: call g_sequ_boot_non_class_def)
  qed
  have largest: "kilobytes CHUNK_LEVEL_4M = Max (kilobytes ` set g_sequ_boot_non_class)"
    by (simp add: g_sequ_boot_non_class_def)
  have next_smaller: "kilobytes CHUNK_LEVEL_1M =
      Max (kilobytes ` (set g_sequ_boot_non_class - {CHUNK_LEVEL_4M}))"
    by (simp add: g_sequ_boot_non_class_def)
  from first plateau largest next_smaller show ?thesis by blast
qed

theorem boot_sequence_levels_witness:
  "1 \<le> sint (1 :: cint) \<and>
   next_chunk_level_for BootMetaspaceType True 0 = Inr CHUNK_LEVEL_4M \<and>
   next_chunk_level_for BootMetaspaceType True 1 = Inr CHUNK_LEVEL_1M \<and>
   next_chunk_level_for BootMetaspaceType False 1 = Inr CHUNK_LEVEL_1M"
  using boot_sequence_levels [of True 1] boot_sequence_levels [of False 1]
  by simp

subsection \<open>The sequences of class mirror holders\<close>

text \<open>
  Claim C6. For the space type of class mirror holders (anonymous classes), with either
  class flag, \<open>get_next_chunk_level i\<close> is the 1K level for index 0 and for every later
  index: there is no ramp.
\<close>

theorem anon_sequence_constant:
  assumes "0 \<le> sint i"
  shows "next_chunk_level_for ClassMirrorHolderMetaspaceType is_class i = Inr CHUNK_LEVEL_1K"
  using assms
  by (cases is_class)
    (simp_all add: next_chunk_level_for_call alloc_sequence_by_space_type_eval level_anon)

theorem anon_sequence_constant_witness:
  "0 \<le> sint (0 :: cint) \<and> 0 \<le> sint (12 :: cint) \<and>
   next_chunk_level_for ClassMirrorHolderMetaspaceType True 0 = Inr CHUNK_LEVEL_1K \<and>
   next_chunk_level_for ClassMirrorHolderMetaspaceType False 12 = Inr CHUNK_LEVEL_1K"
  using anon_sequence_constant [of 0 True] anon_sequence_constant [of 12 False]
  by simp

subsection \<open>The reflection sequences\<close>

text \<open>
  Claim C7, as stated: both reflection sequences, for class data and for non-class data,
  have exactly two entries. It fails for class data: the lookup returns the object built
  from \<open>g_sequ_refl_class\<close>, which has the single entry 1K.
\<close>

theorem refl_class_not_two_entries:
  "alloc_sequence_by_space_type ReflectionMetaspaceType True = Inr (AddressOf refl_class) \<and>
   object_at refl_class = Inr \<lparr>entries = [CHUNK_LEVEL_1K], num_entries = 1\<rparr> \<and>
   length g_sequ_refl_class \<noteq> 2"
  by (simp add: alloc_sequence_by_space_type_eval object_at_eval g_sequ_refl_class_def)

text \<open>
  Claim C7, amended. Only the reflection sequence for non-class data is a two-step ramp:
  its array has exactly two entries, index 0 gives 2K and every index \<open>i \<ge> 1\<close> gives 1K.
  The reflection sequence for class data has exactly one entry and gives 1K for every index
  \<open>i \<ge> 0\<close>.
\<close>

theorem refl_sequences:
  "length g_sequ_refl_non_class = 2 \<and> length g_sequ_refl_class = 1 \<and>
   next_chunk_level_for ReflectionMetaspaceType False 0 = Inr CHUNK_LEVEL_2K \<and>
   (1 \<le> sint i \<longrightarrow>
      next_chunk_level_for ReflectionMetaspaceType False i = Inr CHUNK_LEVEL_1K) \<and>
   (0 \<le> sint i \<longrightarrow>
      next_chunk_level_for ReflectionMetaspaceType True i = Inr CHUNK_LEVEL_1K)"
proof -
  have non_class: "next_chunk_level_for ReflectionMetaspaceType False j =
      call_get_next_chunk_level (AddressOf refl_non_class) j" for j
    by (simp add: next_chunk_level_for_call alloc_sequence_by_space_type_eval)
  have cls: "next_chunk_level_for ReflectionMetaspaceType True j =
      call_get_next_chunk_level (AddressOf refl_class) j" for j
    by (simp add: next_chunk_level_for_call alloc_sequence_by_space_type_eval)
  have lens: "length g_sequ_refl_non_class = 2" "length g_sequ_refl_class = 1"
    by (simp_all add: g_sequ_refl_non_class_def g_sequ_refl_class_def)
  have first: "next_chunk_level_for ReflectionMetaspaceType False 0 = Inr CHUNK_LEVEL_2K"
    by (simp add: non_class level_zero)
  have second: "next_chunk_level_for ReflectionMetaspaceType False i = Inr CHUNK_LEVEL_1K"
    if "1 \<le> sint i"
  proof -
    from that have "min (nat (sint i)) 1 = 1" by simp
    with that level_refl_non_class [of i] show ?thesis
      by (simp add: non_class g_sequ_refl_non_class_def)
  qed
  have single: "next_chunk_level_for ReflectionMetaspaceType True i = Inr CHUNK_LEVEL_1K"
    if "0 \<le> sint i"
    using that by (simp add: cls level_refl_class)
  from lens first second single show ?thesis by blast
qed

theorem refl_sequences_witness:
  "1 \<le> sint (1 :: cint) \<and> 0 \<le> sint (1 :: cint) \<and>
   next_chunk_level_for ReflectionMetaspaceType False 0 = Inr CHUNK_LEVEL_2K \<and>
   next_chunk_level_for ReflectionMetaspaceType False 1 = Inr CHUNK_LEVEL_1K \<and>
   next_chunk_level_for ReflectionMetaspaceType True 1 = Inr CHUNK_LEVEL_1K"
  using refl_sequences [of 1]
  by simp

subsection \<open>Construction\<close>

text \<open>
  Claim C8. Constructing a sequence with \<open>num_entries \<le> 0\<close>, in particular from an array
  of zero entries, fails the constructor's assertion; with \<open>num_entries > 0\<close> the object
  is constructed with the fields given; and every pointer the lookup returns is the address
  of an object that was constructed without a fault, holds at least one entry, and whose
  \<^verbatim>\<open>_num_entries\<close> is the length of its array.
\<close>

theorem constructor_requires_entries:
  "(sint n \<le> 0 \<longrightarrow> new_ConstantChunkAllocSequence array n = Inl AssertFailed) \<and>
   (0 < sint n \<longrightarrow>
      new_ConstantChunkAllocSequence array n = Inr \<lparr>entries = array, num_entries = n\<rparr>) \<and>
   DEFINE_CLASS_FOR_ARRAY [] = Inl AssertFailed \<and>
   (alloc_sequence_by_space_type space_type is_class = Inr p \<longrightarrow>
      (\<exists>g s. p = AddressOf g \<and> object_at g = Inr s \<and> 1 \<le> sint (num_entries s) \<and>
             sint (num_entries s) = int (length (entries s))))"
proof (intro conjI impI)
  assume "sint n \<le> 0"
  then show "new_ConstantChunkAllocSequence array n = Inl AssertFailed"
    by (simp add: new_ConstantChunkAllocSequence_def word_sless_alt)
next
  assume "0 < sint n"
  then show "new_ConstantChunkAllocSequence array n = Inr \<lparr>entries = array, num_entries = n\<rparr>"
    by (simp add: new_ConstantChunkAllocSequence_def word_sless_alt)
next
  show "DEFINE_CLASS_FOR_ARRAY [] = Inl AssertFailed"
    by (simp add: DEFINE_CLASS_FOR_ARRAY_def new_ConstantChunkAllocSequence_def)
next
  assume "alloc_sequence_by_space_type space_type is_class = Inr p"
  then obtain g where "p = AddressOf g"
    using alloc_sequence_by_space_type_AddressOf by blast
  with object_at_nonempty [of g]
  show "\<exists>g s. p = AddressOf g \<and> object_at g = Inr s \<and> 1 \<le> sint (num_entries s) \<and>
             sint (num_entries s) = int (length (entries s))"
    by blast
qed

theorem constructor_requires_entries_witness:
  "sint (0 :: cint) \<le> 0 \<and> 0 < sint (2 :: cint) \<and>
   new_ConstantChunkAllocSequence [] 0 = Inl AssertFailed \<and>
   new_ConstantChunkAllocSequence [CHUNK_LEVEL_4M, CHUNK_LEVEL_1M] 2 =
     Inr \<lparr>entries = [CHUNK_LEVEL_4M, CHUNK_LEVEL_1M], num_entries = 2\<rparr> \<and>
   alloc_sequence_by_space_type BootMetaspaceType True = Inr (AddressOf boot_non_class) \<and>
   (\<exists>s. object_at boot_non_class = Inr s \<and> 1 \<le> sint (num_entries s) \<and>
        sint (num_entries s) = int (length (entries s)))"
  using constructor_requires_entries [of 0 "[]" BootMetaspaceType True "AddressOf boot_non_class"]
    constructor_requires_entries [of 2 "[CHUNK_LEVEL_4M, CHUNK_LEVEL_1M]" BootMetaspaceType True
      "AddressOf boot_non_class"]
  by (simp add: alloc_sequence_by_space_type_eval)

subsection \<open>Array accesses\<close>

text \<open>
  Claim C9. When \<open>num_allocated \<ge> 0\<close> and \<open>num_entries \<ge> 1\<close>, the one array access of
  \<open>get_next_chunk_level\<close> is a read at an index \<open>j\<close> between 0 and \<open>num_entries - 1\<close>; so,
  the array holding its \<open>num_entries\<close> elements, the read is inside the array and the
  function returns a level and no fault.
\<close>

theorem get_next_chunk_level_in_bounds:
  assumes "0 \<le> sint num_allocated" and "1 \<le> sint (num_entries s)"
  shows "\<exists>j. 0 \<le> sint j \<and> sint j \<le> sint (num_entries s) - 1 \<and>
           get_next_chunk_level s num_allocated = array_read (entries s) j \<and>
           (sint (num_entries s) \<le> int (length (entries s)) \<longrightarrow>
              get_next_chunk_level s num_allocated = Inr (entries s ! nat (sint j)))"
proof (cases "num_entries s \<le>s num_allocated")
  case True
  from assms(2) have pred: "sint (num_entries s - 1) = sint (num_entries s) - 1"
    by (intro sint_pred) simp
  with True assms(2) have
    "0 \<le> sint (num_entries s - 1) \<and> sint (num_entries s - 1) \<le> sint (num_entries s) - 1 \<and>
     get_next_chunk_level s num_allocated = array_read (entries s) (num_entries s - 1) \<and>
     (sint (num_entries s) \<le> int (length (entries s)) \<longrightarrow>
        get_next_chunk_level s num_allocated = Inr (entries s ! nat (sint (num_entries s - 1))))"
    by (simp add: get_next_chunk_level_def array_read_def)
  then show ?thesis by blast
next
  case False
  then have "sint num_allocated < sint (num_entries s)" by (simp add: word_sle_eq)
  with False assms(1) have
    "0 \<le> sint num_allocated \<and> sint num_allocated \<le> sint (num_entries s) - 1 \<and>
     get_next_chunk_level s num_allocated = array_read (entries s) num_allocated \<and>
     (sint (num_entries s) \<le> int (length (entries s)) \<longrightarrow>
        get_next_chunk_level s num_allocated = Inr (entries s ! nat (sint num_allocated)))"
    by (simp add: get_next_chunk_level_def array_read_def)
  then show ?thesis by blast
qed

theorem get_next_chunk_level_in_bounds_witness:
  "0 \<le> sint (7 :: cint) \<and>
   1 \<le> sint (num_entries \<lparr>entries = [CHUNK_LEVEL_4M, CHUNK_LEVEL_1M], num_entries = 2\<rparr>) \<and>
   sint (num_entries \<lparr>entries = [CHUNK_LEVEL_4M, CHUNK_LEVEL_1M], num_entries = 2\<rparr>)
     \<le> int (length (entries \<lparr>entries = [CHUNK_LEVEL_4M, CHUNK_LEVEL_1M], num_entries = 2\<rparr>)) \<and>
   (\<exists>j :: cint. 0 \<le> sint j \<and> sint j \<le> 1 \<and>
      get_next_chunk_level \<lparr>entries = [CHUNK_LEVEL_4M, CHUNK_LEVEL_1M], num_entries = 2\<rparr> 7 =
        Inr ([CHUNK_LEVEL_4M, CHUNK_LEVEL_1M] ! nat (sint j)))"
  using get_next_chunk_level_in_bounds
    [of 7 "\<lparr>entries = [CHUNK_LEVEL_4M, CHUNK_LEVEL_1M], num_entries = 2\<rparr>"]
  by simp blast

subsection \<open>Class mirror holders and the class flag\<close>

text \<open>
  Claim C10. For the space type of class mirror holders the class flag does not change the
  level: for every index \<open>i \<ge> 0\<close> the sequence returned for \<open>is_class = True\<close> and the
  one returned for \<open>is_class = False\<close> give the same level, 1K, although the two pointers
  are the addresses of two different objects, each holding the single entry 1K.
\<close>

theorem anon_class_flag_irrelevant:
  assumes "0 \<le> sint i"
  shows "next_chunk_level_for ClassMirrorHolderMetaspaceType True i =
           next_chunk_level_for ClassMirrorHolderMetaspaceType False i \<and>
         next_chunk_level_for ClassMirrorHolderMetaspaceType True i = Inr CHUNK_LEVEL_1K \<and>
         alloc_sequence_by_space_type ClassMirrorHolderMetaspaceType True =
           Inr (AddressOf anon_class) \<and>
         alloc_sequence_by_space_type ClassMirrorHolderMetaspaceType False =
           Inr (AddressOf anon_non_class) \<and>
         AddressOf anon_class \<noteq> AddressOf anon_non_class \<and>
         object_at anon_class = Inr \<lparr>entries = [CHUNK_LEVEL_1K], num_entries = 1\<rparr> \<and>
         object_at anon_non_class = Inr \<lparr>entries = [CHUNK_LEVEL_1K], num_entries = 1\<rparr>"
  using assms
  by (simp add: next_chunk_level_for_call alloc_sequence_by_space_type_eval level_anon
      object_at_eval g_sequ_anon_class_def g_sequ_anon_non_class_def)

theorem anon_class_flag_irrelevant_witness:
  "0 \<le> sint (3 :: cint) \<and>
   next_chunk_level_for ClassMirrorHolderMetaspaceType True 3 =
     next_chunk_level_for ClassMirrorHolderMetaspaceType False 3 \<and>
   next_chunk_level_for ClassMirrorHolderMetaspaceType True 3 = Inr CHUNK_LEVEL_1K"
  using anon_class_flag_irrelevant [of 3]
  by auto

end
